theory Spec2Isabelle
  imports Main "HOL-Library.AList"
begin

section \<open>Values, errors and the RPC peer\<close>

text \<open>
  JSON-like values that cross the RPC boundary untyped (\<open>unknown\<close> in types.ts): the
  payload of an inbound notification or request, and the \<open>data\<close> of a session event.
  An object is the list of its own properties, each key once; numbers are integers.
\<close>

datatype jsval =
    JUndefined
  | JNull
  | JBool bool
  | JNum int
  | JStr string
  | JArr "jsval list"
  | JObj "(string \<times> jsval) list"

text \<open>
  What a \<open>throw\<close> or a rejected promise carries. \<open>ErrorObj name message\<close> is an instance
  of \<open>Error\<close>; \<open>NonError s\<close> is any other thrown value, \<open>s\<close> being what \<open>String(value)\<close>
  gives for it.
\<close>

datatype thrown = ErrorObj string string | NonError string

text \<open>\<open>new Error(message)\<close>: the name of a plain Error is "Error".\<close>

definition new_Error :: "string \<Rightarrow> thrown" where
  "new_Error msg = ErrorObj ''Error'' msg"

text \<open>\<open>error instanceof Error ? error.message : String(error)\<close>\<close>

fun message_of :: "thrown \<Rightarrow> string" where
  "message_of (ErrorObj n m) = m"
| "message_of (NonError s) = s"

text \<open>\<open>error instanceof Error ? error : new Error(String(error))\<close>\<close>

fun as_Error :: "thrown \<Rightarrow> thrown" where
  "as_Error (ErrorObj n m) = ErrorObj n m"
| "as_Error (NonError s) = new_Error s"

text \<open>
  Everything the runtime does to the outside world, in the order it does it: a request
  sent on the connection (method and session id), a \<open>setTimeout\<close> delay that was awaited,
  the three resource operations of shutdown, the spawn of the child process (path and
  arguments), the dialling of a local port, and the setting and clearing of the query
  timer.
\<close>

datatype effect =
    Rpc string string
  | Delay nat
  | Dispose
  | SocketEnd
  | Kill
  | Spawn string "string list"
  | Connect nat
  | SetTimeout nat
  | ClearTimeout

text \<open>
  The external process behind \<open>connection.sendRequest\<close>: given everything done so far and
  the request, it either rejects (\<open>Inl\<close>) or answers (\<open>Inr\<close>). Any sequence of answers and
  failures is some peer.
\<close>

type_synonym peer = "effect list \<Rightarrow> string \<Rightarrow> string \<Rightarrow> thrown + jsval"

definition sendRequest ::
  "peer \<Rightarrow> string \<Rightarrow> string \<Rightarrow> effect list \<Rightarrow> (thrown + jsval) \<times> effect list" where
  "sendRequest p method sid tr = (p tr method sid, tr @ [Rpc method sid])"

section \<open>Session events, tool results\<close>

text \<open>types.ts, \<open>SessionEvent\<close>. Optional fields are options.\<close>

record SessionEvent =
  ev_type :: string
  ev_data :: jsval
  ev_id :: string
  ev_timestamp :: string
  ev_parentId :: "string option"
  ev_ephemeral :: "bool option"

datatype ToolResultType = success | failure | rejected | denied

record ToolBinaryResult =
  bin_data :: string
  bin_mimeType :: string
  bin_type :: string
  bin_description :: "string option"

record ToolResultObject =
  textResultForLlm :: string
  binaryResultsForLlm :: "ToolBinaryResult list option"
  resultType :: ToolResultType
  error :: "string option"
  sessionLog :: "string option"
  toolTelemetry :: "(string \<times> jsval) list option"

text \<open>\<open>ToolResult = string | ToolResultObject\<close>\<close>

datatype ToolResult = Text string | Structured ToolResultObject

record ToolInvocation =
  inv_sessionId :: string
  inv_toolCallId :: string
  inv_toolName :: string
  inv_arguments :: jsval

text \<open>
  What a tool handler hands back at run time: \<open>undefined\<close>, \<open>null\<close> or a ToolResult; and
  what awaiting the handler gives: it raised (or its promise rejected), or it returned.
  A handler is caller code and may throw any value. \<open>Raised e\<close> is a throw of an Error
  or of a value that \<open>String\<close> can convert; \<open>RaisedUnconvertible\<close> is a throw of a value
  that is not an Error and that \<open>String\<close> cannot convert, such as \<open>Object.create(null)\<close>,
  an object with neither \<open>toString\<close> nor \<open>valueOf\<close>: \<open>String(value)\<close> then throws a
  TypeError itself.
\<close>

datatype tool_return = Undefined | Null | Value ToolResult

datatype handler_outcome = Raised thrown | RaisedUnconvertible | Returned tool_return

type_synonym ToolHandler = "ToolInvocation \<Rightarrow> handler_outcome"

text \<open>
  An event handler is a function object of the caller, and the session's Set holds it
  by identity: a handler is named by a number, and \<open>closures\<close> gives the code of each.
  Called with an event, a handler acts on the caller's world \<open>'w\<close>, may raise after
  having changed it (\<open>Some e\<close>), and may have changed the Set it is called from: it may
  have called \<open>session.on(h)\<close> (\<open>Subscribe h\<close>) or the function that \<open>on\<close> returned for \<open>h\<close>
  (\<open>Unsubscribe h\<close>), any number of times, in the order listed. (\<open>destroy\<close> clears the Set
  only after its request was awaited, so never inside the loop.) The event type \<open>'ev\<close> is
  left open: the session never looks into an event, and the client hands it whatever
  value the notification carried (the cast to \<open>SessionEvent\<close> checks nothing).
\<close>

datatype set_op = Subscribe nat | Unsubscribe nat

type_synonym ('ev, 'w) SessionEventHandler = "'ev \<Rightarrow> 'w \<Rightarrow> thrown option \<times> 'w \<times> set_op list"

type_synonym ('ev, 'w) closures = "nat \<Rightarrow> ('ev, 'w) SessionEventHandler"

section \<open>CopilotSession (session.ts)\<close>

text \<open>
  \<open>eventHandlers\<close> is a JavaScript Set of handlers, kept in insertion order: the list of
  its members, each once. \<open>toolHandlers\<close> is a Map from tool name to handler.
\<close>

record CopilotSession =
  sessionId :: string
  eventHandlers :: "nat list"
  toolHandlers :: "string \<rightharpoonup> ToolHandler"

text \<open>\<open>Set.prototype.add\<close> and \<open>Set.prototype.delete\<close>.\<close>

definition set_add :: "nat \<Rightarrow> nat list \<Rightarrow> nat list" where
  "set_add h members = (if h \<in> set members then members else members @ [h])"

definition set_delete :: "nat \<Rightarrow> nat list \<Rightarrow> nat list" where
  "set_delete h members = removeAll h members"

text \<open>
  \<open>on\<close>: \<open>this.eventHandlers.add(handler)\<close>; the function it returns does
  \<open>this.eventHandlers.delete(handler)\<close>.
\<close>

definition on :: "CopilotSession \<Rightarrow> nat \<Rightarrow> CopilotSession" where
  "on s handler = s\<lparr>eventHandlers := set_add handler (eventHandlers s)\<rparr>"

definition unsubscribe :: "CopilotSession \<Rightarrow> nat \<Rightarrow> CopilotSession" where
  "unsubscribe s handler = s\<lparr>eventHandlers := set_delete handler (eventHandlers s)\<rparr>"

text \<open>
  What a handler did to the Set while \<open>for (const handler of this.eventHandlers)\<close> is
  running. The iteration is over the live Set: \<open>members\<close> is the Set, \<open>pending\<close> are the
  members that the iterator has not reached. A member deleted before it is reached is
  not visited; a handler added (it was not a member) goes to the end of the Set and is
  visited in the same loop.
\<close>

fun apply_op :: "nat list \<times> nat list \<Rightarrow> set_op \<Rightarrow> nat list \<times> nat list" where
  "apply_op (members, pending) (Subscribe h) =
     (set_add h members, if h \<in> set members then pending else pending @ [h])"
| "apply_op (members, pending) (Unsubscribe h) = (set_delete h members, removeAll h pending)"

text \<open>
  \<open>_dispatchEvent\<close>: \<open>for (const handler of this.eventHandlers) { try { handler(event) }
  catch (_error) { } }\<close>. The loop need not end (a handler may subscribe another each
  time it runs): \<open>None\<close> is a dispatch that does not return. Of a dispatch that returns,
  the first component is what the method throws to its caller, the second the Set as
  the handlers left it, the third their world.
\<close>

partial_function (option) dispatch_loop ::
  "('ev, 'w) closures \<Rightarrow> nat list \<Rightarrow> nat list \<Rightarrow> 'ev \<Rightarrow> 'w \<Rightarrow>
     (thrown option \<times> nat list \<times> 'w) option" where
  "dispatch_loop code members pending event w =
     (case pending of
        [] \<Rightarrow> Some (None, members, w)
      | handler # rest \<Rightarrow>
          (case code handler event w of
             (None, w', ops) \<Rightarrow>
               dispatch_loop code (fst (foldl apply_op (members, rest) ops))
                 (snd (foldl apply_op (members, rest) ops)) event w'
           | (Some e, w', ops) \<Rightarrow>
               dispatch_loop code (fst (foldl apply_op (members, rest) ops))
                 (snd (foldl apply_op (members, rest) ops)) event w'))"

definition dispatchEvent ::
  "('ev, 'w) closures \<Rightarrow> CopilotSession \<Rightarrow> 'ev \<Rightarrow> 'w \<Rightarrow>
     (thrown option \<times> CopilotSession \<times> 'w) option" where
  "dispatchEvent code s event w =
     (case dispatch_loop code (eventHandlers s) (eventHandlers s) event w of
        None \<Rightarrow> None
      | Some (r, members, w') \<Rightarrow> Some (r, s\<lparr>eventHandlers := members\<rparr>, w'))"

definition getToolHandler :: "CopilotSession \<Rightarrow> string \<Rightarrow> ToolHandler option" where
  "getToolHandler s name = toolHandlers s name"

text \<open>
  \<open>destroy\<close>: awaits the "session.destroy" request; a rejection propagates before the two
  \<open>clear()\<close> calls are reached.
\<close>

definition destroy ::
  "peer \<Rightarrow> CopilotSession \<Rightarrow> effect list \<Rightarrow>
     (thrown + CopilotSession) \<times> effect list" where
  "destroy p s tr =
     (case sendRequest p ''session.destroy'' (sessionId s) tr of
        (Inl e, tr') \<Rightarrow> (Inl e, tr')
      | (Inr _, tr') \<Rightarrow> (Inr (s\<lparr>eventHandlers := [], toolHandlers := Map.empty\<rparr>), tr'))"



section \<open>JavaScript checks on untyped values\<close>

text \<open>\<open>!v\<close>: the falsy values.\<close>

fun falsy :: "jsval \<Rightarrow> bool" where
  "falsy JUndefined = True"
| "falsy JNull = True"
| "falsy (JBool b) = (\<not> b)"
| "falsy (JNum n) = (n = 0)"
| "falsy (JStr s) = (s = [])"
| "falsy (JArr xs) = False"
| "falsy (JObj ps) = False"

fun typeof :: "jsval \<Rightarrow> string" where
  "typeof JUndefined = ''undefined''"
| "typeof JNull = ''object''"
| "typeof (JBool b) = ''boolean''"
| "typeof (JNum n) = ''number''"
| "typeof (JStr s) = ''string''"
| "typeof (JArr xs) = ''object''"
| "typeof (JObj ps) = ''object''"

text \<open>
  \<open>key in v\<close> for a non-null object \<open>v\<close>, and the property read \<open>v.key\<close> for a value that
  is not null or undefined. The keys read by the client ("sessionId", "event",
  "toolCallId", "toolName", "arguments", "message") are not properties of arrays, of
  wrapped primitives or of \<open>Object.prototype\<close>, so only an object's own properties count.
\<close>

fun has_prop :: "string \<Rightarrow> jsval \<Rightarrow> bool" where
  "has_prop key (JObj ps) = (key \<in> set (map fst ps))"
| "has_prop key v = False"

fun get_prop :: "jsval \<Rightarrow> string \<Rightarrow> jsval" where
  "get_prop (JObj ps) key = (case map_of ps key of Some x \<Rightarrow> x | None \<Rightarrow> JUndefined)"
| "get_prop v key = JUndefined"

text \<open>The string held by a value whose \<open>typeof\<close> is "string" (applied to no other).\<close>

fun str :: "jsval \<Rightarrow> string" where
  "str (JStr s) = s"
| "str v = []"

section \<open>Text and numbers\<close>

text \<open>
  Decimal text of a natural number, as a template literal or \<open>toString()\<close> renders a
  non-negative integer, and \<open>parseInt(digits, 10)\<close> on a string of decimal digits.
\<close>

definition digit_char :: "nat \<Rightarrow> char" where
  "digit_char d = ''0123456789'' ! d"

function show_nat :: "nat \<Rightarrow> string" where
  "show_nat n = (if n < 10 then [digit_char n] else show_nat (n div 10) @ [digit_char (n mod 10)])"
  by pat_completeness auto
termination
  by (relation "measure (\<lambda>n. n)") auto

declare show_nat.simps [simp del]

definition is_digit :: "char \<Rightarrow> bool" where
  "is_digit ch = (ch \<in> set ''0123456789'')"

definition digit_value :: "char \<Rightarrow> nat" where
  "digit_value ch =
     (case map_of [(CHR ''0'', 0), (CHR ''1'', 1), (CHR ''2'', 2), (CHR ''3'', 3),
        (CHR ''4'', 4), (CHR ''5'', 5), (CHR ''6'', 6), (CHR ''7'', 7), (CHR ''8'', 8),
        (CHR ''9'', 9)] ch of Some d \<Rightarrow> d | None \<Rightarrow> 0)"

definition parseInt :: "string \<Rightarrow> nat" where
  "parseInt ds = foldl (\<lambda>acc ch. acc * 10 + digit_value ch) 0 ds"

text \<open>
  The regular expression \<open>/listening on port (\d+)/i\<close> applied with \<open>String.match\<close>:
  \<open>match_port text\<close> is the first capture group of the leftmost match, if there is one.
  Under the \<open>i\<close> flag a letter of the pattern matches itself and its upper case; \<open>\d+\<close>
  takes the longest run of decimal digits that follows (at least one).
\<close>

definition upper_of :: "char \<Rightarrow> char" where
  "upper_of ch =
     (case map_of (zip ''abcdefghijklmnopqrstuvwxyz'' ''ABCDEFGHIJKLMNOPQRSTUVWXYZ'') ch of
        Some u \<Rightarrow> u | None \<Rightarrow> ch)"

fun matches_here :: "string \<Rightarrow> string \<Rightarrow> bool" where
  "matches_here [] text = True"
| "matches_here (p # ps) [] = False"
| "matches_here (p # ps) (ch # rest) = ((ch = p \<or> ch = upper_of p) \<and> matches_here ps rest)"

definition digits_after :: "string \<Rightarrow> string" where
  "digits_after cs = takeWhile is_digit (drop (length ''listening on port '') cs)"

fun match_port :: "string \<Rightarrow> string option" where
  "match_port [] = None"
| "match_port (ch # rest) =
     (if matches_here ''listening on port '' (ch # rest) \<and> digits_after (ch # rest) \<noteq> []
      then Some (digits_after (ch # rest))
      else match_port rest)"

text \<open>\<open>Array.prototype.join\<close> on strings, and \<open>String(v)\<close> (numbers being integers).\<close>

fun join :: "string \<Rightarrow> string list \<Rightarrow> string" where
  "join sep [] = []"
| "join sep [x] = x"
| "join sep (x # y # rest) = x @ sep @ join sep (y # rest)"

fun js_String :: "jsval \<Rightarrow> string" where
  "js_String JUndefined = ''undefined''"
| "js_String JNull = ''null''"
| "js_String (JBool b) = (if b then ''true'' else ''false'')"
| "js_String (JNum n) = (if n < 0 then ''-'' @ show_nat (nat (- n)) else show_nat (nat n))"
| "js_String (JStr s) = s"
| "js_String (JArr xs) =
     join '','' (map (\<lambda>x. case x of JUndefined \<Rightarrow> [] | JNull \<Rightarrow> [] | v \<Rightarrow> js_String v) xs)"
| "js_String (JObj ps) = ''[object Object]''"

section \<open>The outside of a client\<close>

text \<open>
  What lies outside a client: the peer; whether \<open>connection.dispose()\<close>, \<open>socket.end()\<close>
  and \<open>cliProcess.kill()\<close> throw when called after the effects done so far; whether
  \<open>spawn\<close> throws; the events that the child process emits before the 10 second timer of
  \<open>startCLIServer\<close> fires, in order; and the message of the socket's error event when
  dialling fails.
\<close>

datatype proc_event =
    StdoutData string
  | StderrData string
  | ProcError string
  | ProcExit "nat option"

record outside =
  rpc :: peer
  dispose_throws :: "effect list \<Rightarrow> thrown option"
  end_throws :: "effect list \<Rightarrow> thrown option"
  kill_throws :: "effect list \<Rightarrow> thrown option"
  spawn_throws :: "thrown option"
  proc_events :: "proc_event list"
  connect_error :: "string option"

section \<open>CopilotClient (client.ts)\<close>

datatype ConnectionState = disconnected | connecting | connected | errored

record CopilotClientOptions =
  cliPath :: string
  cliArgs :: "string list"
  cwd :: string
  port :: nat
  useStdio :: bool
  logLevel :: string
  autoStart :: bool
  autoRestart :: bool

text \<open>
  The child process, the JSON-RPC connection and the socket are live objects of the
  platform; the client only holds them or holds \<open>null\<close>, so each is a handle or \<open>None\<close>.
  \<open>sessions\<close> is a Map, iterated in insertion order: an association list with unique keys.
\<close>

record CopilotClient =
  cliProcess :: "nat option"
  connection :: "nat option"
  socket :: "nat option"
  actualPort :: "nat option"
  state :: ConnectionState
  sessions :: "(string \<times> CopilotSession) list"
  options :: CopilotClientOptions

definition sessions_get ::
  "CopilotClient \<Rightarrow> string \<Rightarrow> CopilotSession option" where
  "sessions_get c sid = map_of (sessions c) sid"

record ToolCallResponsePayload =
  result :: ToolResult

subsection \<open>Inbound notifications and tool calls\<close>

text \<open>
  \<open>handleSessionEventNotification\<close>. It returns nothing and assigns no field of the
  client or of a session itself; what it does is what the handlers it reaches do. The
  result is what it throws, the client (with the session found in the registry as the
  handlers left its Set) and the handlers' world; \<open>None\<close> when the dispatch does not
  return.
\<close>

definition handleSessionEventNotification ::
  "(jsval, 'w) closures \<Rightarrow> CopilotClient \<Rightarrow> jsval \<Rightarrow> 'w \<Rightarrow>
     (thrown option \<times> CopilotClient \<times> 'w) option" where
  "handleSessionEventNotification code c notification w =
     (if typeof notification \<noteq> ''object'' \<or>
         falsy notification \<or>
         \<not> has_prop ''sessionId'' notification \<or>
         typeof (get_prop notification ''sessionId'') \<noteq> ''string'' \<or>
         \<not> has_prop ''event'' notification
      then Some (None, c, w)
      else
        (case sessions_get c (str (get_prop notification ''sessionId'')) of
           Some session \<Rightarrow>
             (case dispatchEvent code session (get_prop notification ''event'') w of
                None \<Rightarrow> None
              | Some (r, session', w') \<Rightarrow>
                  Some (r,
                    c\<lparr>sessions := AList.update (str (get_prop notification ''sessionId''))
                        session' (sessions c)\<rparr>, w'))
         | None \<Rightarrow> Some (None, c, w)))"

definition normalizeToolResult :: "tool_return \<Rightarrow> ToolResult" where
  "normalizeToolResult r =
     (case r of
        Undefined \<Rightarrow>
          Structured \<lparr>textResultForLlm = ''Tool returned no result'',
            binaryResultsForLlm = None, resultType = failure,
            error = Some ''tool returned no result'', sessionLog = None,
            toolTelemetry = Some []\<rparr>
      | Null \<Rightarrow>
          Structured \<lparr>textResultForLlm = ''Tool returned no result'',
            binaryResultsForLlm = None, resultType = failure,
            error = Some ''tool returned no result'', sessionLog = None,
            toolTelemetry = Some []\<rparr>
      | Value v \<Rightarrow> v)"

definition buildUnsupportedToolResult :: "string \<Rightarrow> ToolResult" where
  "buildUnsupportedToolResult toolName =
     Structured \<lparr>textResultForLlm =
         ''Tool '' @ [CHR 0x27] @ toolName @ [CHR 0x27] @
         '' is not supported by this client instance.'',
       binaryResultsForLlm = None, resultType = failure,
       error = Some (''tool '' @ [CHR 0x27] @ toolName @ [CHR 0x27] @ '' not supported''),
       sessionLog = None, toolTelemetry = Some []\<rparr>"

text \<open>The ToolInvocation that \<open>executeToolCall\<close> builds from a validated request.\<close>

definition invocation_of :: "jsval \<Rightarrow> ToolInvocation" where
  "invocation_of request =
     \<lparr>inv_sessionId = str (get_prop request ''sessionId''),
      inv_toolCallId = str (get_prop request ''toolCallId''),
      inv_toolName = str (get_prop request ''toolName''),
      inv_arguments = get_prop request ''arguments''\<rparr>"

text \<open>
  \<open>executeToolCall\<close>: the whole body is inside \<open>try\<close>; the \<open>catch\<close> clause is the first
  two cases. The clause computes \<open>error instanceof Error ? error.message :
  String(error)\<close> before it builds the result, and is itself inside no \<open>try\<close>: when
  \<open>String(error)\<close> throws, that TypeError is what the function rejects with (\<open>Inl\<close>).
\<close>

definition executeToolCall :: "ToolHandler \<Rightarrow> jsval \<Rightarrow> thrown + ToolCallResponsePayload" where
  "executeToolCall handler request =
     (case handler (invocation_of request) of
        Raised e \<Rightarrow>
          Inr \<lparr>result = Structured \<lparr>textResultForLlm = message_of e,
             binaryResultsForLlm = None, resultType = failure,
             error = Some (message_of e), sessionLog = None, toolTelemetry = Some []\<rparr>\<rparr>
      | RaisedUnconvertible \<Rightarrow>
          Inl (ErrorObj ''TypeError'' ''Cannot convert object to primitive value'')
      | Returned r \<Rightarrow> Inr \<lparr>result = normalizeToolResult r\<rparr>)"

text \<open>
  \<open>handleToolCallRequest\<close>: \<open>Inl\<close> is the error the async function rejects with, which
  fails the RPC request; \<open>Inr\<close> is the response sent back. It awaits \<open>executeToolCall\<close>
  outside any \<open>try\<close>.
\<close>

definition handleToolCallRequest ::
  "CopilotClient \<Rightarrow> jsval \<Rightarrow> thrown + ToolCallResponsePayload" where
  "handleToolCallRequest c params =
     (if falsy params \<or>
         typeof (get_prop params ''sessionId'') \<noteq> ''string'' \<or>
         typeof (get_prop params ''toolCallId'') \<noteq> ''string'' \<or>
         typeof (get_prop params ''toolName'') \<noteq> ''string''
      then Inl (new_Error ''Invalid tool call payload'')
      else
        (case sessions_get c (str (get_prop params ''sessionId'')) of
           None \<Rightarrow> Inl (new_Error (''Unknown session '' @ str (get_prop params ''sessionId'')))
         | Some session \<Rightarrow>
             (case getToolHandler session (str (get_prop params ''toolName'')) of
                None \<Rightarrow>
                  Inr \<lparr>result = buildUnsupportedToolResult (str (get_prop params ''toolName''))\<rparr>
              | Some handler \<Rightarrow> executeToolCall handler params)))"

subsection \<open>Shutdown\<close>

text \<open>
  The inner loop of \<open>stop\<close>: \<open>for (let attempt = 1; attempt <= 3; attempt++)\<close>, with
  \<open>lastError\<close> as the loop carries it. A successful \<open>destroy\<close> sets \<open>lastError = null\<close> and
  breaks; a failed one stores the error and, before the next attempt, awaits
  \<open>100 * Math.pow(2, attempt - 1)\<close> ms.
\<close>

function destroy_retry ::
  "peer \<Rightarrow> CopilotSession \<Rightarrow> nat \<Rightarrow> thrown option \<Rightarrow> effect list \<Rightarrow>
     thrown option \<times> CopilotSession \<times> effect list" where
  "destroy_retry p session attempt lastError tr =
     (if attempt \<le> 3 then
        (case destroy p session tr of
           (Inr session', tr') \<Rightarrow> (None, session', tr')
         | (Inl e, tr') \<Rightarrow>
             destroy_retry p session (attempt + 1) (Some (as_Error e))
               (if attempt < 3 then tr' @ [Delay (100 * 2 ^ (attempt - 1))] else tr'))
      else (lastError, session, tr))"
  by pat_completeness auto
termination
  by (relation "measure (\<lambda>(p, session, attempt, lastError, tr). 4 - attempt)") auto

declare destroy_retry.simps [simp del]

text \<open>
  The outer loop, over \<open>this.sessions.values()\<close>, pushing to \<open>errors\<close>. The sessions
  leave the registry right after it, so what \<open>destroy\<close> did to each is not kept.
\<close>

fun stop_sessions ::
  "peer \<Rightarrow> (string \<times> CopilotSession) list \<Rightarrow> thrown list \<Rightarrow> effect list \<Rightarrow>
     thrown list \<times> effect list" where
  "stop_sessions p [] errors tr = (errors, tr)"
| "stop_sessions p ((key, session) # rest) errors tr =
     (case destroy_retry p session 1 None tr of
        (Some lastError, session', tr') \<Rightarrow>
          stop_sessions p rest
            (errors @ [new_Error (''Failed to destroy session '' @ sessionId session @
                '' after 3 attempts: '' @ message_of lastError)]) tr'
      | (None, session', tr') \<Rightarrow> stop_sessions p rest errors tr')"

text \<open>
  \<open>stop\<close>. Every call that can throw sits in a \<open>try\<close> whose \<open>catch\<close> pushes to \<open>errors\<close>;
  the result is the returned array, the client as it is left, and the effects.
\<close>

definition stop ::
  "outside \<Rightarrow> CopilotClient \<Rightarrow> effect list \<Rightarrow>
     thrown list \<times> CopilotClient \<times> effect list" where
  "stop env c tr =
     (case stop_sessions (rpc env) (sessions c) [] tr of (errors1, tr1) \<Rightarrow>
      (case (case connection c of
               Some conn \<Rightarrow>
                 ((case dispose_throws env tr1 of
                     Some e \<Rightarrow>
                       errors1 @ [new_Error (''Failed to dispose connection: '' @ message_of e)]
                   | None \<Rightarrow> errors1),
                  c\<lparr>sessions := [], connection := None\<rparr>, tr1 @ [Dispose])
             | None \<Rightarrow> (errors1, c\<lparr>sessions := []\<rparr>, tr1)) of (errors2, c2, tr2) \<Rightarrow>
      (case (case socket c2 of
               Some sock \<Rightarrow>
                 ((case end_throws env tr2 of
                     Some e \<Rightarrow> errors2 @ [new_Error (''Failed to close socket: '' @ message_of e)]
                   | None \<Rightarrow> errors2),
                  c2\<lparr>socket := None\<rparr>, tr2 @ [SocketEnd])
             | None \<Rightarrow> (errors2, c2, tr2)) of (errors3, c3, tr3) \<Rightarrow>
      (case (case cliProcess c3 of
               Some proc \<Rightarrow>
                 ((case kill_throws env tr3 of
                     Some e \<Rightarrow>
                       errors3 @ [new_Error (''Failed to kill CLI process: '' @ message_of e)]
                   | None \<Rightarrow> errors3),
                  c3\<lparr>cliProcess := None\<rparr>, tr3 @ [Kill])
             | None \<Rightarrow> (errors3, c3, tr3)) of (errors4, c4, tr4) \<Rightarrow>
      (errors4, c4\<lparr>state := disconnected, actualPort := None\<rparr>, tr4)))))"

subsection \<open>Shutdown, in the words of the specification\<close>

text \<open>
  The specification's description of \<open>stop\<close>, to compare the loops above with: destroy
  is attempted up to three times, 100 ms after the first failure and 200 ms after the
  second, and only the third failure is reported; each session is handled in turn and
  adds at most one aggregated error; then the connection, the socket and the process
  that the client holds are closed in that order, each failure adding one error.
\<close>

definition destroy_three_times ::
  "peer \<Rightarrow> string \<Rightarrow> effect list \<Rightarrow> thrown option \<times> effect list" where
  "destroy_three_times p sid tr =
     (let first = tr @ [Rpc ''session.destroy'' sid];
          second = first @ [Delay 100, Rpc ''session.destroy'' sid];
          third = second @ [Delay 200, Rpc ''session.destroy'' sid]
      in case p tr ''session.destroy'' sid of
           Inr ok \<Rightarrow> (None, first)
         | Inl e1 \<Rightarrow>
             (case p (first @ [Delay 100]) ''session.destroy'' sid of
                Inr ok \<Rightarrow> (None, second)
              | Inl e2 \<Rightarrow>
                  (case p (second @ [Delay 200]) ''session.destroy'' sid of
                     Inr ok \<Rightarrow> (None, third)
                   | Inl e3 \<Rightarrow> (Some e3, third))))"

definition teardown_step ::
  "peer \<Rightarrow> thrown list \<times> effect list \<Rightarrow> string \<times> CopilotSession \<Rightarrow>
     thrown list \<times> effect list" where
  "teardown_step p acc entry =
     (case destroy_three_times p (sessionId (snd entry)) (snd acc) of
        (None, tr') \<Rightarrow> (fst acc, tr')
      | (Some e, tr') \<Rightarrow>
          (fst acc @ [new_Error (''Failed to destroy session '' @ sessionId (snd entry) @
              '' after 3 attempts: '' @ message_of e)], tr'))"

definition close_effects :: "CopilotClient \<Rightarrow> effect list" where
  "close_effects c =
     (case connection c of Some conn \<Rightarrow> [Dispose] | None \<Rightarrow> []) @
     (case socket c of Some sock \<Rightarrow> [SocketEnd] | None \<Rightarrow> []) @
     (case cliProcess c of Some proc \<Rightarrow> [Kill] | None \<Rightarrow> [])"

definition close_errors :: "outside \<Rightarrow> CopilotClient \<Rightarrow> effect list \<Rightarrow> thrown list" where
  "close_errors env c tr =
     (let tr2 = tr @ (case connection c of Some conn \<Rightarrow> [Dispose] | None \<Rightarrow> []);
          tr3 = tr2 @ (case socket c of Some sock \<Rightarrow> [SocketEnd] | None \<Rightarrow> [])
      in (case (connection c, dispose_throws env tr) of
            (Some conn, Some e) \<Rightarrow>
              [new_Error (''Failed to dispose connection: '' @ message_of e)]
          | other \<Rightarrow> []) @
         (case (socket c, end_throws env tr2) of
            (Some sock, Some e) \<Rightarrow> [new_Error (''Failed to close socket: '' @ message_of e)]
          | other \<Rightarrow> []) @
         (case (cliProcess c, kill_throws env tr3) of
            (Some proc, Some e) \<Rightarrow>
              [new_Error (''Failed to kill CLI process: '' @ message_of e)]
          | other \<Rightarrow> []))"

subsection \<open>Startup\<close>

text \<open>
  The readiness promise of \<open>startCLIServer\<close> in TCP mode, run over the events of the child
  in the order they arrive: \<open>stdout\<close> is the buffer, and the first event that settles the
  promise decides (\<open>resolved\<close> is set, later events change nothing). When the events are
  used up unsettled, the 10 second timer fires.
\<close>

fun await_ready :: "proc_event list \<Rightarrow> string \<Rightarrow> thrown + nat" where
  "await_ready [] stdout = Inl (new_Error ''Timeout waiting for CLI server to start'')"
| "await_ready (StdoutData d # evs) stdout =
     (case match_port (stdout @ d) of
        Some digits \<Rightarrow> Inr (parseInt digits)
      | None \<Rightarrow> await_ready evs (stdout @ d))"
| "await_ready (StderrData d # evs) stdout = await_ready evs stdout"
| "await_ready (ProcError msg # evs) stdout =
     Inl (new_Error (''Failed to start CLI server: '' @ msg))"
| "await_ready (ProcExit code # evs) stdout =
     Inl (new_Error (''CLI server exited with code '' @
        (case code of Some n \<Rightarrow> show_nat n | None \<Rightarrow> ''null'')))"

text \<open>
  To speak about a run of events: the standard output they carry, and whether an event
  settles the readiness promise by itself (an error or an exit of the child).
\<close>

fun stdout_of :: "proc_event list \<Rightarrow> string" where
  "stdout_of [] = []"
| "stdout_of (StdoutData d # evs) = d @ stdout_of evs"
| "stdout_of (ev # evs) = stdout_of evs"

fun settles :: "proc_event \<Rightarrow> bool" where
  "settles (ProcError msg) = True"
| "settles (ProcExit code) = True"
| "settles ev = False"

text \<open>
  \<open>startCLIServer\<close>, \<open>connectViaStdio\<close>, \<open>connectViaTcp\<close>, \<open>connectToServer\<close>, \<open>start\<close>.
  The first component is the error the promise rejects with, if any; the client is
  returned in either case, since fields are assigned before a failure. A throw of
  \<open>spawn\<close> inside the promise's executor rejects the promise. In stdio mode the promise
  is resolved right after the spawn. \<open>!this.actualPort\<close> holds for \<open>null\<close> and for 0. A new
  handle is the number of effects so far.
\<close>

definition startCLIServer ::
  "outside \<Rightarrow> CopilotClient \<Rightarrow> effect list \<Rightarrow>
     thrown option \<times> CopilotClient \<times> effect list" where
  "startCLIServer env c tr =
     (let args = cliArgs (options c) @ [''--server'', ''--log-level'', logLevel (options c)] @
            (if useStdio (options c) then [''--stdio'']
             else if port (options c) > 0 then [''--port'', show_nat (port (options c))]
             else [])
      in case spawn_throws env of
           Some e \<Rightarrow> (Some e, c, tr)
         | None \<Rightarrow>
             (let c1 = c\<lparr>cliProcess := Some (length tr)\<rparr>;
                  tr1 = tr @ [Spawn (cliPath (options c)) args]
              in if useStdio (options c) then (None, c1, tr1)
                 else (case await_ready (proc_events env) [] of
                         Inr n \<Rightarrow> (None, c1\<lparr>actualPort := Some n\<rparr>, tr1)
                       | Inl e \<Rightarrow> (Some e, c1, tr1))))"

definition connectViaStdio ::
  "CopilotClient \<Rightarrow> effect list \<Rightarrow>
     thrown option \<times> CopilotClient \<times> effect list" where
  "connectViaStdio c tr =
     (case cliProcess c of
        None \<Rightarrow> (Some (new_Error ''CLI process not started''), c, tr)
      | Some proc \<Rightarrow> (None, c\<lparr>connection := Some (length tr)\<rparr>, tr))"

definition connectViaTcp ::
  "outside \<Rightarrow> CopilotClient \<Rightarrow> effect list \<Rightarrow>
     thrown option \<times> CopilotClient \<times> effect list" where
  "connectViaTcp env c tr =
     (case actualPort c of
        None \<Rightarrow> (Some (new_Error ''Server port not available''), c, tr)
      | Some n \<Rightarrow>
          (if n = 0 then (Some (new_Error ''Server port not available''), c, tr)
           else
             (let c1 = c\<lparr>socket := Some (length tr)\<rparr>;
                  tr1 = tr @ [Connect n]
              in case connect_error env of
                   None \<Rightarrow> (None, c1\<lparr>connection := Some (length tr)\<rparr>, tr1)
                 | Some msg \<Rightarrow>
                     (Some (new_Error (''Failed to connect to CLI server: '' @ msg)), c1, tr1))))"

definition connectToServer ::
  "outside \<Rightarrow> CopilotClient \<Rightarrow> effect list \<Rightarrow>
     thrown option \<times> CopilotClient \<times> effect list" where
  "connectToServer env c tr =
     (if useStdio (options c) then connectViaStdio c tr else connectViaTcp env c tr)"

definition start ::
  "outside \<Rightarrow> CopilotClient \<Rightarrow> effect list \<Rightarrow>
     thrown option \<times> CopilotClient \<times> effect list" where
  "start env c tr =
     (if state c = connected then (None, c, tr)
      else
        (case startCLIServer env (c\<lparr>state := connecting\<rparr>) tr of
           (Some e, c1, tr1) \<Rightarrow> (Some e, c1\<lparr>state := errored\<rparr>, tr1)
         | (None, c1, tr1) \<Rightarrow>
             (case connectToServer env c1 tr1 of
                (Some e, c2, tr2) \<Rightarrow> (Some e, c2\<lparr>state := errored\<rparr>, tr2)
              | (None, c2, tr2) \<Rightarrow> (None, c2\<lparr>state := connected\<rparr>, tr2))))"

subsection \<open>Sessions of a client\<close>

text \<open>
  types.ts, \<open>Tool\<close> and \<open>SessionConfig\<close>; session.ts, \<open>registerTools\<close>; client.ts, the
  constructor (with \<open>process.cwd()\<close> as a parameter) and \<open>createSession\<close>. The answer to "session.create" is
  read as \<open>response.sessionId\<close>, which throws a TypeError on \<open>null\<close> or \<open>undefined\<close>; the
  \<open>sessionId\<close> of any other answer is taken to be a string, as its declared type says.
\<close>

record Tool =
  tool_name :: string
  tool_description :: string
  tool_parameters :: "jsval option"
  tool_handler :: ToolHandler

record SessionConfig =
  cfg_sessionId :: "string option"
  cfg_model :: "string option"
  cfg_tools :: "Tool list option"

definition registerTools ::
  "CopilotSession \<Rightarrow> Tool list option \<Rightarrow> CopilotSession" where
  "registerTools s tools =
     (case tools of
        None \<Rightarrow> s\<lparr>toolHandlers := Map.empty\<rparr>
      | Some ts \<Rightarrow>
          s\<lparr>toolHandlers :=
              foldl (\<lambda>m tool. m(tool_name tool \<mapsto> tool_handler tool)) Map.empty ts\<rparr>)"

record CopilotClientOptionsInput =
  in_cliPath :: "string option"
  in_cliArgs :: "string list option"
  in_cwd :: "string option"
  in_port :: "nat option"
  in_useStdio :: "bool option"
  in_logLevel :: "string option"
  in_autoStart :: "bool option"
  in_autoRestart :: "bool option"

definition new_CopilotClient :: "string \<Rightarrow> CopilotClientOptionsInput \<Rightarrow> CopilotClient" where
  "new_CopilotClient process_cwd opts =
     \<lparr>cliProcess = None, connection = None, socket = None, actualPort = None,
      state = disconnected, sessions = [],
      options =
        \<lparr>cliPath = (case in_cliPath opts of None \<Rightarrow> ''copilot'' | Some p \<Rightarrow> if p = [] then ''copilot'' else p),
         cliArgs = (case in_cliArgs opts of None \<Rightarrow> [] | Some a \<Rightarrow> a),
         cwd = (case in_cwd opts of None \<Rightarrow> process_cwd | Some d \<Rightarrow> d),
         port = (case in_port opts of None \<Rightarrow> 0 | Some n \<Rightarrow> n),
         useStdio = (case in_useStdio opts of None \<Rightarrow> True | Some b \<Rightarrow> b),
         logLevel = (case in_logLevel opts of None \<Rightarrow> ''info'' | Some l \<Rightarrow> if l = [] then ''info'' else l),
         autoStart = (case in_autoStart opts of None \<Rightarrow> True | Some b \<Rightarrow> b),
         autoRestart = (case in_autoRestart opts of None \<Rightarrow> True | Some b \<Rightarrow> b)\<rparr>\<rparr>"

definition createSession ::
  "outside \<Rightarrow> CopilotClient \<Rightarrow> SessionConfig \<Rightarrow> effect list \<Rightarrow>
     (thrown + CopilotSession) \<times> CopilotClient \<times> effect list" where
  "createSession env c config tr =
     (case (if connection c = None
            then (if autoStart (options c) then start env c tr
                  else (Some (new_Error ''Client not connected. Call start() first.''), c, tr))
            else (None, c, tr)) of
        (Some e, c1, tr1) \<Rightarrow> (Inl e, c1, tr1)
      | (None, c1, tr1) \<Rightarrow>
          (if connection c1 = None
           then (Inl (ErrorObj ''TypeError''
                   ''Cannot read properties of null (reading 'sendRequest')''), c1, tr1)
           else
             (case sendRequest (rpc env) ''session.create''
                     (case cfg_sessionId config of Some sid \<Rightarrow> sid | None \<Rightarrow> []) tr1 of
                (Inl e, tr2) \<Rightarrow> (Inl e, c1, tr2)
              | (Inr response, tr2) \<Rightarrow>
                  (if response = JNull
                   then (Inl (ErrorObj ''TypeError''
                           ''Cannot read properties of null (reading 'sessionId')''), c1, tr2)
                   else if response = JUndefined
                   then (Inl (ErrorObj ''TypeError''
                           ''Cannot read properties of undefined (reading 'sessionId')''), c1, tr2)
                   else
                     (let sid = str (get_prop response ''sessionId'');
                          session = registerTools
                            \<lparr>sessionId = sid, eventHandlers = [], toolHandlers = Map.empty\<rparr>
                            (cfg_tools config)
                      in (Inr session,
                          c1\<lparr>sessions := AList.update sid session (sessions c1)\<rparr>, tr2))))))"

section \<open>query (query.ts)\<close>

text \<open>
  What lies outside one run of \<open>query\<close>, besides the outside of its client:
  \<^item> \<open>iterator\<close>: what the successive \<open>next()\<close> calls of the event iterator give. \<open>Next\<close>
    is the argument array of one emitted event; \<open>Aborted\<close> is the rejection with an
    AbortError once the timer has fired the abort signal; \<open>Thrown e\<close> is the rejection
    after \<open>eventIterator.throw(e)\<close>, which the \<open>catch\<close> of \<open>session.send\<close> calls while
    \<open>turnFinished\<close> is false. When the list is used up the iterator is pending, until
    the timer fires; after \<open>eventIterator.return()\<close> it is done instead.
  \<^item> \<open>aborted_before_listen\<close>: the timer has fired before \<open>on(eventEmitter, ...)\<close> is
    called, which then throws an AbortError.
  \<^item> \<open>aborted_at_catch\<close>: the value of \<open>abortController.signal.aborted\<close> when the
    \<open>catch\<close> clause runs for any other error.
  \<^item> \<open>consumer_returns_at\<close>: \<open>Some k\<close> when the consumer, having taken \<open>k\<close> events
    (one at least), calls \<open>return()\<close> on the generator instead of \<open>next()\<close>.
  \<^item> \<open>now_ms\<close>, \<open>now_iso\<close>: \<open>Date.now()\<close> and \<open>new Date().toISOString()\<close> in \<open>finally\<close>.
  The answer to "session.send" is not awaited by \<open>query\<close>; a failure of it reaches the
  loop as a \<open>Thrown\<close> item.
\<close>

record QueryOptions =
  q_prompt :: string
  q_model :: "string option"
  q_cliPath :: "string option"
  q_cliArgs :: "string list option"
  q_cwd :: "string option"
  q_logLevel :: "string option"
  q_attachments :: "jsval option"
  q_timeout :: "nat option"
  q_includeEphemeral :: "bool option"
  q_tools :: "Tool list option"

datatype iter_result = Next "SessionEvent list" | Aborted | Thrown thrown

record query_outside = outside +
  process_cwd :: string
  iterator :: "iter_result list"
  aborted_before_listen :: bool
  aborted_at_catch :: bool
  consumer_returns_at :: "nat option"
  now_ms :: nat
  now_iso :: string

text \<open>
  How the \<open>for await\<close> loop is left: the iterator is done, something was thrown (with the
  value that \<open>signal.aborted\<close> has in the \<open>catch\<close>), or the consumer closed the generator.
  How the generator ends: it completes, it throws, or it was closed by the consumer.
\<close>

datatype loop_exit = LoopDone | LoopThrew thrown bool | LoopClosed

datatype completion = Completed | Failed thrown | Closed

record query_result =
  yielded :: "SessionEvent list"
  completion :: completion
  client :: "CopilotClient"
  effects :: "effect list"
  turnFinished :: bool

definition abort_error :: thrown where
  "abort_error = ErrorObj ''AbortError'' ''The operation was aborted''"

definition error_text :: "SessionEvent \<Rightarrow> string" where
  "error_text event =
     (if typeof (ev_data event) = ''object'' \<and> \<not> falsy (ev_data event) \<and>
         has_prop ''message'' (ev_data event)
      then js_String (get_prop (ev_data event) ''message'')
      else ''Unknown error'')"

text \<open>
  The loop body. \<open>returned\<close> records that \<open>eventIterator.return()\<close> was called; \<open>ys\<close> are
  the events yielded so far.
\<close>

fun consume ::
  "bool \<Rightarrow> bool \<Rightarrow> nat option \<Rightarrow> iter_result list \<Rightarrow> bool \<Rightarrow> SessionEvent list \<Rightarrow>
     loop_exit \<times> SessionEvent list" where
  "consume includeEphemeral at_catch stop_at [] returned ys =
     (if returned then (LoopDone, ys) else (LoopThrew abort_error True, ys))"
| "consume includeEphemeral at_catch stop_at (Aborted # rest) returned ys =
     (LoopThrew abort_error True, ys)"
| "consume includeEphemeral at_catch stop_at (Thrown e # rest) returned ys =
     (LoopThrew e at_catch, ys)"
| "consume includeEphemeral at_catch stop_at (Next events # rest) returned ys =
     (case events of
        [event] \<Rightarrow>
          (if ev_ephemeral event = Some True \<and> \<not> includeEphemeral
           then consume includeEphemeral at_catch stop_at rest returned ys
           else if ev_type event = ''session.error''
           then (LoopThrew (new_Error (error_text event)) at_catch, ys)
           else if stop_at = Some (Suc (length ys))
           then (LoopClosed, ys @ [event])
           else consume includeEphemeral at_catch stop_at rest
                  (returned \<or> ev_type event = ''session.idle'') (ys @ [event]))
      | other \<Rightarrow>
          (LoopThrew (new_Error (''Expected single event, got '' @ show_nat (length events)))
             at_catch, ys))"

text \<open>
  The \<open>catch\<close> clause: \<open>signal.aborted && err instanceof Error && err.name ===
  "AbortError" ? new Error(`Query timed out after ${timeout}ms`) : err\<close>.
\<close>

definition rethrown :: "nat \<Rightarrow> bool \<Rightarrow> thrown \<Rightarrow> thrown" where
  "rethrown timeout aborted err =
     (if aborted \<and> (case err of ErrorObj name msg \<Rightarrow> name = ''AbortError'' | NonError v \<Rightarrow> False)
      then new_Error (''Query timed out after '' @ show_nat timeout @ ''ms'')
      else err)"

text \<open>
  The session that \<open>query\<close> holds is the object in the client's registry: a change to it
  is a change to the registry entry of its id.
\<close>

definition sessions_replace ::
  "CopilotSession \<Rightarrow> (string \<times> CopilotSession) list \<Rightarrow>
     (string \<times> CopilotSession) list" where
  "sessions_replace s entries =
     map (\<lambda>entry. if fst entry = sessionId s then (fst entry, s) else entry) entries"

definition cleanup_event :: "query_outside \<Rightarrow> thrown list \<Rightarrow> SessionEvent" where
  "cleanup_event env cleanupErrors =
     \<lparr>ev_type = ''error'',
      ev_data = JObj [(''message'',
        JStr (''Cleanup errors: '' @ join ''; '' (map message_of cleanupErrors)))],
      ev_id = ''error-'' @ show_nat (now_ms env),
      ev_timestamp = now_iso env, ev_parentId = None, ev_ephemeral = None\<rparr>"

text \<open>
  The \<open>finally\<close> block, entered with the completion that is pending. \<open>turnFinished\<close> is
  set and the timer cleared; \<open>await session?.destroy()\<close> is outside any \<open>try\<close>, so its
  rejection ends the block there and replaces the pending completion; otherwise the
  client is stopped, one event is yielded if \<open>stop\<close> returned errors, and the pending
  completion takes place.
\<close>

definition teardown ::
  "query_outside \<Rightarrow> CopilotClient \<Rightarrow>
     CopilotSession option \<Rightarrow> completion \<Rightarrow>
     SessionEvent list \<Rightarrow> effect list \<Rightarrow> query_result" where
  "teardown env c session pending ys tr =
     (case (case session of
              None \<Rightarrow> (None, c, tr @ [ClearTimeout])
            | Some s \<Rightarrow>
                (case destroy (rpc env) s (tr @ [ClearTimeout]) of
                   (Inl e, tr') \<Rightarrow> (Some e, c, tr')
                 | (Inr s', tr') \<Rightarrow>
                     (None, c\<lparr>sessions := sessions_replace s' (sessions c)\<rparr>, tr'))) of
        (Some e, c1, tr1) \<Rightarrow>
          \<lparr>yielded = ys, completion = Failed e, client = c1, effects = tr1,
           turnFinished = True\<rparr>
      | (None, c1, tr1) \<Rightarrow>
          (case stop (outside.truncate env) c1 tr1 of
             (cleanupErrors, c2, tr2) \<Rightarrow>
               \<lparr>yielded = (if cleanupErrors \<noteq> [] then ys @ [cleanup_event env cleanupErrors]
                            else ys),
                completion = pending, client = c2, effects = tr2, turnFinished = True\<rparr>))"

text \<open>
  \<open>query\<close>. The result collects the events yielded, how the generator ended, the client
  as it is left, and the effects. The closure that \<open>query\<close> subscribes,
  \<open>(event) => eventEmitter.emit("data", event)\<close>, is handler 0 of the new session.
\<close>

definition query :: "query_outside \<Rightarrow> QueryOptions \<Rightarrow> query_result" where
  "query env opts =
     (let timeout = (case q_timeout opts of None \<Rightarrow> 60000 | Some t \<Rightarrow> t);
          includeEphemeral = (case q_includeEphemeral opts of None \<Rightarrow> True | Some b \<Rightarrow> b);
          logLevel = (case q_logLevel opts of None \<Rightarrow> ''error'' | Some l \<Rightarrow> l);
          c0 = new_CopilotClient (process_cwd env)
                 \<lparr>in_cliPath = q_cliPath opts, in_cliArgs = q_cliArgs opts,
                  in_cwd = q_cwd opts, in_port = None, in_useStdio = None,
                  in_logLevel = Some logLevel, in_autoStart = None, in_autoRestart = None\<rparr>;
          tr0 = [SetTimeout timeout]
      in case start (outside.truncate env) c0 tr0 of
           (Some e, c1, tr1) \<Rightarrow>
             teardown env c1 None (Failed (rethrown timeout (aborted_at_catch env) e)) [] tr1
         | (None, c1, tr1) \<Rightarrow>
             (case createSession (outside.truncate env) c1
                     \<lparr>cfg_sessionId = None, cfg_model = q_model opts, cfg_tools = q_tools opts\<rparr>
                     tr1 of
                (Inl e, c2, tr2) \<Rightarrow>
                  teardown env c2 None (Failed (rethrown timeout (aborted_at_catch env) e)) [] tr2
              | (Inr created, c2, tr2) \<Rightarrow>
                  (let session = on created 0;
                       c3 = c2\<lparr>sessions := sessions_replace session (sessions c2)\<rparr>
                   in if aborted_before_listen env
                      then teardown env c3 (Some session)
                             (Failed (rethrown timeout True abort_error)) [] tr2
                      else
                        (case consume includeEphemeral (aborted_at_catch env)
                                (consumer_returns_at env) (iterator env) False [] of
                           (LoopDone, ys) \<Rightarrow>
                             teardown env c3 (Some session) Completed ys
                               (tr2 @ [Rpc ''session.send'' (sessionId session)])
                         | (LoopClosed, ys) \<Rightarrow>
                             teardown env c3 (Some session) Closed ys
                               (tr2 @ [Rpc ''session.send'' (sessionId session)])
                         | (LoopThrew e aborted, ys) \<Rightarrow>
                             teardown env c3 (Some session)
                               (Failed (rethrown timeout aborted e)) ys
                               (tr2 @ [Rpc ''session.send'' (sessionId session)])))))"

section \<open>Concrete inputs\<close>

text \<open>
  Inputs on which the model is evaluated. \<open>once_only_peer\<close> accepts a request the first
  time it sees it and rejects a repeated one, as a server does that no longer knows a
  destroyed session. \<open>demo_session\<close> has two event handlers, 0 and 1; with
  \<open>demo_handlers\<close> each appends the event to the caller's list, and handler 0 then
  raises; with \<open>unsubscribing_handlers\<close> each appends its own number, and handler 0 also
  calls the unsubscribe function of handler 1. \<open>demo_tool\<close> raises for the tool "boom",
  returns \<open>undefined\<close> for "silent" and a string otherwise; \<open>dump_tool\<close> throws
  \<open>Object.create(null)\<close>, and \<open>dump_client\<close> has a session "s1" with that tool.
\<close>

definition once_only_peer :: peer where
  "once_only_peer tr method sid =
     (if Rpc method sid \<in> set tr then Inl (new_Error ''Session not found'') else Inr JNull)"

definition demo_tool :: ToolHandler where
  "demo_tool i =
     (if inv_toolName i = ''boom'' then Raised (new_Error ''disk full'')
      else if inv_toolName i = ''silent'' then Returned Undefined
      else Returned (Value (Text (''ran '' @ inv_toolName i))))"

definition demo_session :: CopilotSession where
  "demo_session =
     \<lparr>sessionId = ''s1'', eventHandlers = [0, 1],
      toolHandlers = [''boom'' \<mapsto> demo_tool, ''silent'' \<mapsto> demo_tool, ''echo'' \<mapsto> demo_tool]\<rparr>"

definition demo_handlers :: "(jsval, jsval list) closures" where
  "demo_handlers h ev w =
     (if h = 0 then (Some (new_Error ''handler failed''), w @ [ev], [])
      else (None, w @ [ev], []))"


definition demo_options :: CopilotClientOptions where
  "demo_options =
     \<lparr>cliPath = ''copilot'', cliArgs = [], cwd = ''/'', port = 0, useStdio = True,
      logLevel = ''info'', autoStart = True, autoRestart = True\<rparr>"

definition demo_client :: CopilotClient where
  "demo_client =
     \<lparr>cliProcess = Some 1, connection = Some 1, socket = None, actualPort = None,
      state = connected, sessions = [(''s1'', demo_session)], options = demo_options\<rparr>"

definition dump_tool :: ToolHandler where
  "dump_tool i = RaisedUnconvertible"

definition dump_client :: CopilotClient where
  "dump_client =
     demo_client\<lparr>sessions :=
       [(''s1'', demo_session\<lparr>toolHandlers := [''dump'' \<mapsto> dump_tool]\<rparr>)]\<rparr>"

definition tool_call :: "string \<Rightarrow> string \<Rightarrow> jsval" where
  "tool_call sid name =
     JObj [(''sessionId'', JStr sid), (''toolCallId'', JStr ''call-1''),
           (''toolName'', JStr name), (''arguments'', JNull)]"

definition session_event :: "string \<Rightarrow> jsval" where
  "session_event sid =
     JObj [(''sessionId'', JStr sid), (''event'', JObj [(''type'', JStr ''assistant.message'')])]"

text \<open>
  For shutdown: a peer on which every request for session "s1" fails and every other
  succeeds, an outside where closing never throws, and a client with two sessions.
\<close>

definition lost_s1_peer :: peer where
  "lost_s1_peer tr method sid =
     (if sid = ''s1'' then Inl (NonError (''lost '' @ method)) else Inr JNull)"

definition quiet_outside :: "peer \<Rightarrow> outside" where
  "quiet_outside p =
     \<lparr>rpc = p, dispose_throws = (\<lambda>tr. None), end_throws = (\<lambda>tr. None),
      kill_throws = (\<lambda>tr. None), spawn_throws = None, proc_events = [],
      connect_error = None\<rparr>"

definition two_session_client :: CopilotClient where
  "two_session_client =
     demo_client\<lparr>sessions := [(''s1'', demo_session), (''s2'', demo_session\<lparr>sessionId := ''s2''\<rparr>)]\<rparr>"

text \<open>
  For startup: a client in TCP mode, a child process whose announcement
  "listening on port 54321" arrives in two chunks, and one whose announcement arrives
  in one.
\<close>

definition tcp_client :: CopilotClient where
  "tcp_client =
     \<lparr>cliProcess = None, connection = None, socket = None, actualPort = None,
      state = disconnected, sessions = [],
      options = demo_options\<lparr>useStdio := False\<rparr>\<rparr>"

definition split_announcement :: outside where
  "split_announcement =
     (quiet_outside once_only_peer)
       \<lparr>proc_events := [StdoutData ''listening on port 5'', StdoutData ''4321'']\<rparr>"

definition whole_announcement :: outside where
  "whole_announcement =
     (quiet_outside once_only_peer)\<lparr>proc_events := [StdoutData ''listening on port 54321'']\<rparr>"

text \<open>
  For \<open>query\<close>: a peer that creates session "s1" and accepts everything, one that
  rejects "session.destroy", an outside built from a peer and the iterator's items, the
  options of the example in query.ts, and the items of a turn that runs to its end.
\<close>

definition failing_destroy_peer :: peer where
  "failing_destroy_peer tr method sid =
     (if method = ''session.create'' then Inr (JObj [(''sessionId'', JStr ''s1'')])
      else if method = ''session.destroy'' then Inl (new_Error ''Internal error'')
      else Inr JNull)"

definition accepting_peer :: peer where
  "accepting_peer tr method sid =
     (if method = ''session.create'' then Inr (JObj [(''sessionId'', JStr ''s1'')])
      else Inr JNull)"

definition plain_event :: "string \<Rightarrow> SessionEvent" where
  "plain_event t =
     \<lparr>ev_type = t, ev_data = JNull, ev_id = ''e'', ev_timestamp = ''t'', ev_parentId = None,
      ev_ephemeral = None\<rparr>"

definition query_world :: "peer \<Rightarrow> iter_result list \<Rightarrow> query_outside" where
  "query_world p items =
     outside.extend (quiet_outside p)
       (query_outside.fields ''/'' items False False None 42 ''2026-01-01T00:00:00.000Z'')"

definition ask :: QueryOptions where
  "ask = \<lparr>q_prompt = ''What is 2+2?'', q_model = None, q_cliPath = None, q_cliArgs = None,
     q_cwd = None, q_logLevel = None, q_attachments = None, q_timeout = None,
     q_includeEphemeral = None, q_tools = None\<rparr>"

definition finished_turn :: "iter_result list" where
  "finished_turn = [Next [plain_event ''assistant.message''], Next [plain_event ''session.idle'']]"

section \<open>Properties of the session\<close>

lemma dispatch_loop_Nil: "dispatch_loop code members [] event w = Some (None, members, w)"
  by (subst dispatch_loop.simps) simp

lemma dispatch_loop_Cons:
  "dispatch_loop code members (handler # rest) event w =
     dispatch_loop code (fst (foldl apply_op (members, rest) (snd (snd (code handler event w)))))
       (snd (foldl apply_op (members, rest) (snd (snd (code handler event w))))) event
       (fst (snd (code handler event w)))"
  by (subst dispatch_loop.simps) (simp split: prod.splits option.splits)











text \<open>
  C7, as stated, fails: \<open>destroy\<close> has no record of having run, so a second call sends
  "session.destroy" again and raises whenever the peer rejects it. Here the first call
  succeeds and empties the session, and the second call on the emptied session raises.
\<close>

theorem C7_second_destroy_raises:
  "fst (destroy once_only_peer demo_session []) =
     Inr (demo_session\<lparr>eventHandlers := [], toolHandlers := Map.empty\<rparr>) \<and>
   snd (destroy once_only_peer demo_session []) = [Rpc ''session.destroy'' ''s1''] \<and>
   fst (destroy once_only_peer (demo_session\<lparr>eventHandlers := [], toolHandlers := Map.empty\<rparr>)
          [Rpc ''session.destroy'' ''s1'']) = Inl (new_Error ''Session not found'')"
  by (simp add: destroy_def sendRequest_def once_only_peer_def demo_session_def)

text \<open>
  C7, amended. Every call of \<open>destroy\<close> sends one "session.destroy" request for the
  session. If the peer rejects it, the call raises that rejection. If the peer accepts
  it, the call returns and the event-handler set and the tool-handler map are empty; a
  second call then sends the request again, and either raises the peer's rejection or
  returns with the session exactly as the first call left it.
\<close>

theorem C7_destroy_twice:
  "(case destroy p s tr of
      (Inl e, tr1) \<Rightarrow>
        p tr ''session.destroy'' (sessionId s) = Inl e \<and>
        tr1 = tr @ [Rpc ''session.destroy'' (sessionId s)]
    | (Inr s1, tr1) \<Rightarrow>
        (\<exists>v. p tr ''session.destroy'' (sessionId s) = Inr v) \<and>
        tr1 = tr @ [Rpc ''session.destroy'' (sessionId s)] \<and>
        eventHandlers s1 = [] \<and> toolHandlers s1 = Map.empty \<and> sessionId s1 = sessionId s \<and>
        (case destroy p s1 tr1 of
           (Inl e, tr2) \<Rightarrow> p tr1 ''session.destroy'' (sessionId s) = Inl e
         | (Inr s2, tr2) \<Rightarrow> s2 = s1))"
  by (auto simp: destroy_def sendRequest_def split: sum.splits)

theorem C7_destroy_twice_witness:
  "eventHandlers (demo_session\<lparr>eventHandlers := [], toolHandlers := Map.empty\<rparr>) = [] \<and>
   once_only_peer [Rpc ''session.destroy'' ''s1''] ''session.destroy'' ''s1'' =
     Inl (new_Error ''Session not found'')"
  using C7_destroy_twice [where p = once_only_peer and s = demo_session and tr = "[]"]
  by (simp add: destroy_def sendRequest_def once_only_peer_def demo_session_def)

section \<open>Properties of the tool-call dispatcher and of notification routing\<close>

lemma string_prop_not_falsy:
  "typeof (get_prop v key) = ''string'' \<Longrightarrow> \<not> falsy v"
  by (cases v) simp_all

text \<open>
  C3. A tool.call request with string \<open>sessionId\<close>, \<open>toolCallId\<close> and \<open>toolName\<close>, whose
  session is registered and has no handler for the tool, is answered (not rejected) with
  a ToolResult of type "failure" whose text says that the tool is not supported by this
  client instance.
\<close>

theorem C3_unsupported_tool_is_failure_result:
  assumes "typeof (get_prop params ''sessionId'') = ''string''"
    and "typeof (get_prop params ''toolCallId'') = ''string''"
    and "typeof (get_prop params ''toolName'') = ''string''"
    and "sessions_get c (str (get_prop params ''sessionId'')) = Some session"
    and "getToolHandler session (str (get_prop params ''toolName'')) = None"
  shows "handleToolCallRequest c params =
     Inr \<lparr>result = Structured \<lparr>textResultForLlm =
         ''Tool '' @ [CHR 0x27] @ str (get_prop params ''toolName'') @ [CHR 0x27] @
         '' is not supported by this client instance.'',
       binaryResultsForLlm = None, resultType = failure,
       error = Some (''tool '' @ [CHR 0x27] @ str (get_prop params ''toolName'') @ [CHR 0x27] @
         '' not supported''),
       sessionLog = None, toolTelemetry = Some []\<rparr>\<rparr>"
  using assms string_prop_not_falsy [of params "''sessionId''"]
  by (simp add: handleToolCallRequest_def buildUnsupportedToolResult_def)

theorem C3_unsupported_tool_witness:
  "handleToolCallRequest demo_client (tool_call ''s1'' ''paint'') =
     Inr \<lparr>result = Structured \<lparr>textResultForLlm =
         ''Tool 'paint' is not supported by this client instance.'',
       binaryResultsForLlm = None, resultType = failure,
       error = Some ''tool 'paint' not supported'',
       sessionLog = None, toolTelemetry = Some []\<rparr>\<rparr>"
  using C3_unsupported_tool_is_failure_result [where c = demo_client
      and params = "tool_call ''s1'' ''paint''" and session = demo_session]
  by (simp add: tool_call_def demo_client_def demo_session_def sessions_get_def
      getToolHandler_def)

lemma executeToolCall_conversions:
  "(handler (invocation_of request) = Raised e \<longrightarrow>
      executeToolCall handler request =
        Inr \<lparr>result = Structured \<lparr>textResultForLlm = message_of e, binaryResultsForLlm = None,
           resultType = failure, error = Some (message_of e), sessionLog = None,
           toolTelemetry = Some []\<rparr>\<rparr>) \<and>
   (handler (invocation_of request) = Returned Undefined \<or>
    handler (invocation_of request) = Returned Null \<longrightarrow>
      executeToolCall handler request =
        Inr \<lparr>result = Structured \<lparr>textResultForLlm = ''Tool returned no result'',
           binaryResultsForLlm = None, resultType = failure,
           error = Some ''tool returned no result'', sessionLog = None,
           toolTelemetry = Some []\<rparr>\<rparr>) \<and>
   (handler (invocation_of request) = Returned (Value v) \<longrightarrow>
      executeToolCall handler request = Inr \<lparr>result = v\<rparr>) \<and>
   (typeof (get_prop request ''sessionId'') = ''string'' \<and>
    typeof (get_prop request ''toolCallId'') = ''string'' \<and>
    typeof (get_prop request ''toolName'') = ''string'' \<and>
    sessions_get c (str (get_prop request ''sessionId'')) = Some session \<and>
    getToolHandler session (str (get_prop request ''toolName'')) = Some handler \<longrightarrow>
      handleToolCallRequest c request = executeToolCall handler request)"
  using string_prop_not_falsy [of request "''sessionId''"]
  by (auto simp: executeToolCall_def normalizeToolResult_def handleToolCallRequest_def)

text \<open>
  C4 fails on the code where the handler throws a value that is not an Error and that
  \<open>String\<close> cannot convert. The tool "dump" of session "s1" throws \<open>Object.create(null)\<close>;
  in the \<open>catch\<close> clause of \<open>executeToolCall\<close>, \<open>String(error)\<close> throws a TypeError, and the
  request is rejected with that TypeError: no ToolResult is sent. A handler that throws
  an Error (the tool "boom") is answered with the failure ToolResult.
\<close>

theorem C4_unconvertible_throw_rejects_the_request:
  "handleToolCallRequest dump_client (tool_call ''s1'' ''dump'') =
     Inl (ErrorObj ''TypeError'' ''Cannot convert object to primitive value'') \<and>
   handleToolCallRequest demo_client (tool_call ''s1'' ''boom'') =
     Inr \<lparr>result = Structured \<lparr>textResultForLlm = ''disk full'', binaryResultsForLlm = None,
        resultType = failure, error = Some ''disk full'', sessionLog = None,
        toolTelemetry = Some []\<rparr>\<rparr>"
  by (simp add: handleToolCallRequest_def executeToolCall_def tool_call_def dump_client_def
      dump_tool_def demo_client_def demo_session_def demo_tool_def sessions_get_def
      getToolHandler_def invocation_of_def new_Error_def)

theorem C4_unconvertible_throw_witness:
  "isl (handleToolCallRequest dump_client (tool_call ''s1'' ''dump'')) \<and>
   \<not> isl (handleToolCallRequest demo_client (tool_call ''s1'' ''boom''))"
  using C4_unconvertible_throw_rejects_the_request by simp

text \<open>
  C5. A tool.call request in which \<open>sessionId\<close>, \<open>toolCallId\<close> or \<open>toolName\<close> is not a
  string (which covers a payload that is no object at all), or whose \<open>sessionId\<close> names
  no registered session, is rejected with an error, "Invalid tool call payload" in the
  first case and "Unknown session <id>" in the second; no ToolResult is returned.
\<close>

theorem C5_bad_request_fails_the_rpc:
  assumes "typeof (get_prop params ''sessionId'') \<noteq> ''string'' \<or>
           typeof (get_prop params ''toolCallId'') \<noteq> ''string'' \<or>
           typeof (get_prop params ''toolName'') \<noteq> ''string'' \<or>
           sessions_get c (str (get_prop params ''sessionId'')) = None"
  shows "handleToolCallRequest c params =
     Inl (new_Error
       (if typeof (get_prop params ''sessionId'') \<noteq> ''string'' \<or>
           typeof (get_prop params ''toolCallId'') \<noteq> ''string'' \<or>
           typeof (get_prop params ''toolName'') \<noteq> ''string''
        then ''Invalid tool call payload''
        else ''Unknown session '' @ str (get_prop params ''sessionId'')))"
  using assms string_prop_not_falsy [of params "''sessionId''"]
  by (auto simp: handleToolCallRequest_def)

theorem C5_bad_request_witness:
  "handleToolCallRequest demo_client
     (JObj [(''sessionId'', JNum 7), (''toolCallId'', JStr ''call-1''),
            (''toolName'', JStr ''echo'')]) =
     Inl (new_Error ''Invalid tool call payload'') \<and>
   handleToolCallRequest demo_client JNull = Inl (new_Error ''Invalid tool call payload'') \<and>
   handleToolCallRequest demo_client (tool_call ''s2'' ''echo'') =
     Inl (new_Error ''Unknown session s2'')"
  using
    C5_bad_request_fails_the_rpc [where c = demo_client
      and params = "JObj [(''sessionId'', JNum 7), (''toolCallId'', JStr ''call-1''),
                          (''toolName'', JStr ''echo'')]"]
    C5_bad_request_fails_the_rpc [where c = demo_client and params = JNull]
    C5_bad_request_fails_the_rpc [where c = demo_client and params = "tool_call ''s2'' ''echo''"]
  by (simp add: tool_call_def demo_client_def sessions_get_def)

text \<open>
  C10. A session.event notification that is not an object with a string \<open>sessionId\<close> and
  an \<open>event\<close> property, or whose \<open>sessionId\<close> names no registered session, is dropped:
  nothing is thrown, and the client, its sessions and the handlers' world are left as
  they were, whatever the handlers are, so none of them ran. A well-formed notification
  for a registered session does exactly what dispatching its \<open>event\<close> value, as received,
  on that session does, the session in the registry being the one that was dispatched
  on.
\<close>

theorem C10_bad_notification_is_dropped:
  "(typeof notification \<noteq> ''object'' \<or> falsy notification \<or>
    \<not> has_prop ''sessionId'' notification \<or>
    typeof (get_prop notification ''sessionId'') \<noteq> ''string'' \<or>
    \<not> has_prop ''event'' notification \<or>
    sessions_get c (str (get_prop notification ''sessionId'')) = None \<longrightarrow>
      handleSessionEventNotification code c notification w = Some (None, c, w)) \<and>
   (typeof notification = ''object'' \<and> \<not> falsy notification \<and>
    has_prop ''sessionId'' notification \<and>
    typeof (get_prop notification ''sessionId'') = ''string'' \<and>
    has_prop ''event'' notification \<and>
    sessions_get c (str (get_prop notification ''sessionId'')) = Some session \<longrightarrow>
      handleSessionEventNotification code c notification w =
        map_option
          (\<lambda>y. (fst y,
                c\<lparr>sessions := AList.update (str (get_prop notification ''sessionId''))
                     (fst (snd y)) (sessions c)\<rparr>,
                snd (snd y)))
          (dispatchEvent code session (get_prop notification ''event'') w))"
  by (auto simp: handleSessionEventNotification_def split: option.splits)

theorem C10_bad_notification_witness:
  "handleSessionEventNotification demo_handlers demo_client (JStr ''session.event'') [] =
     Some (None, demo_client, []) \<and>
   handleSessionEventNotification demo_handlers demo_client
       (JObj [(''sessionId'', JStr ''s1'')]) [] =
     Some (None, demo_client, []) \<and>
   handleSessionEventNotification demo_handlers demo_client (session_event ''s2'') [] =
     Some (None, demo_client, []) \<and>
   handleSessionEventNotification demo_handlers demo_client (session_event ''s1'') [] =
     Some (None, demo_client,
       [JObj [(''type'', JStr ''assistant.message'')],
        JObj [(''type'', JStr ''assistant.message'')]])"
  using
    C10_bad_notification_is_dropped [where c = demo_client and w = "[]"
      and code = demo_handlers and notification = "JStr ''session.event''"]
    C10_bad_notification_is_dropped [where c = demo_client and w = "[]"
      and code = demo_handlers and notification = "JObj [(''sessionId'', JStr ''s1'')]"]
    C10_bad_notification_is_dropped [where c = demo_client and w = "[]"
      and code = demo_handlers and notification = "session_event ''s2''"]
    C10_bad_notification_is_dropped [where c = demo_client and w = "[]"
      and code = demo_handlers and notification = "session_event ''s1''"
      and session = demo_session]
  by (simp add: session_event_def demo_client_def demo_session_def demo_handlers_def
      sessions_get_def dispatchEvent_def dispatch_loop_Cons dispatch_loop_Nil)

section \<open>Properties of shutdown\<close>

lemma message_of_as_Error: "message_of (as_Error e) = message_of e"
  by (cases e) (simp_all add: new_Error_def)

lemma destroy_retry_unrolled:
  "fst (destroy_retry p s 1 None tr) = map_option as_Error (fst (destroy_three_times p (sessionId s) tr)) \<and>
   snd (snd (destroy_retry p s 1 None tr)) = snd (destroy_three_times p (sessionId s) tr)"
  by (simp add: destroy_retry.simps destroy_three_times_def destroy_def sendRequest_def Let_def split: sum.splits)

lemma stop_sessions_step:
  "stop_sessions p ((key, s) # rest) errors tr =
     (case teardown_step p (errors, tr) (key, s) of (errors', tr') \<Rightarrow>
        stop_sessions p rest errors' tr')"
proof -
  obtain le s' tr' where r: "destroy_retry p s 1 None tr = (le, s', tr')"
    by (cases "destroy_retry p s 1 None tr")
  obtain l3 t3 where d: "destroy_three_times p (sessionId s) tr = (l3, t3)"
    by (cases "destroy_three_times p (sessionId s) tr")
  from destroy_retry_unrolled [of p s tr] r d
  have eq: "le = map_option as_Error l3" "tr' = t3" by simp_all
  from r have r': "destroy_retry p s (Suc 0) None tr = (le, s', tr')" by simp
  show ?thesis
    by (cases l3) (simp_all add: r' d eq teardown_step_def message_of_as_Error)
qed

lemma stop_sessions_foldl:
  "stop_sessions p ss errors tr = foldl (teardown_step p) (errors, tr) ss"
proof (induction ss arbitrary: errors tr)
  case Nil
  show ?case by simp
next
  case (Cons entry ss)
  obtain key s where entry: "entry = (key, s)" by (cases entry)
  obtain errors' tr' where t: "teardown_step p (errors, tr) (key, s) = (errors', tr')"
    by (cases "teardown_step p (errors, tr) (key, s)")
  show ?case
    unfolding entry stop_sessions_step
    by (simp add: t Cons.IH)
qed

lemma stop_characterised:
  "stop env c tr =
     (case foldl (teardown_step (rpc env)) ([], tr) (sessions c) of (session_errors, tr1) \<Rightarrow>
        (session_errors @ close_errors env c tr1,
         c\<lparr>cliProcess := None, connection := None, socket := None, actualPort := None,
            state := disconnected, sessions := []\<rparr>,
         tr1 @ close_effects c))"
proof -
  obtain se tr1 where f: "foldl (teardown_step (rpc env)) ([], tr) (sessions c) = (se, tr1)"
    by (cases "foldl (teardown_step (rpc env)) ([], tr) (sessions c)")
  show ?thesis
    by (cases "connection c"; cases "socket c"; cases "cliProcess c")
      (simp_all add: stop_def stop_sessions_foldl f close_errors_def close_effects_def Let_def
        split: option.splits)
qed

lemma teardown_step_grows:
  "\<exists>suffix. snd (teardown_step p acc entry) =
     snd acc @ Rpc ''session.destroy'' (sessionId (snd entry)) # suffix"
  by (simp add: teardown_step_def destroy_three_times_def Let_def split: sum.splits)

lemma teardown_step_errors:
  "length (fst (teardown_step p acc entry)) \<le> Suc (length (fst acc))"
  by (simp add: teardown_step_def split: prod.splits option.splits)

lemma teardown_fold_grows:
  "\<exists>suffix. snd (foldl (teardown_step p) acc ss) = snd acc @ suffix"
proof (induction ss arbitrary: acc)
  case Nil
  show ?case by simp
next
  case (Cons entry ss)
  from teardown_step_grows [of p acc entry] obtain s1 where
    "snd (teardown_step p acc entry) = snd acc @ Rpc ''session.destroy'' (sessionId (snd entry)) # s1"
    by blast
  moreover from Cons.IH [of "teardown_step p acc entry"] obtain s2 where
    "snd (foldl (teardown_step p) (teardown_step p acc entry) ss) =
       snd (teardown_step p acc entry) @ s2" by blast
  ultimately show ?case by simp
qed

lemma teardown_fold_requests:
  "list_all (\<lambda>entry. Rpc ''session.destroy'' (sessionId (snd entry)) \<in>
      set (snd (foldl (teardown_step p) acc ss))) ss"
proof (induction ss arbitrary: acc)
  case Nil
  show ?case by simp
next
  case (Cons entry ss)
  from teardown_step_grows [of p acc entry] obtain s1 where
    s1: "snd (teardown_step p acc entry) =
      snd acc @ Rpc ''session.destroy'' (sessionId (snd entry)) # s1"
    by blast
  from teardown_fold_grows [of p "teardown_step p acc entry" ss] obtain s2 where
    "snd (foldl (teardown_step p) (teardown_step p acc entry) ss) =
       snd (teardown_step p acc entry) @ s2" by blast
  with s1 have "Rpc ''session.destroy'' (sessionId (snd entry)) \<in>
      set (snd (foldl (teardown_step p) (teardown_step p acc entry) ss))" by simp
  with Cons.IH [of "teardown_step p acc entry"] show ?case by simp
qed

lemma teardown_fold_errors:
  "length (fst (foldl (teardown_step p) acc ss)) \<le> length (fst acc) + length ss"
proof (induction ss arbitrary: acc)
  case Nil
  show ?case by simp
next
  case (Cons entry ss)
  from Cons.IH [of "teardown_step p acc entry"] teardown_step_errors [of p acc entry]
  show ?case by simp
qed

text \<open>
  C2. \<open>stop\<close> does what the specification's words say: it returns the errors of the
  sessions, in registry order, followed by those of closing the connection, the socket
  and the process; a session is tried up to three times with delays of 100 ms and 200 ms
  between the attempts and adds one error, naming it and its last failure, only when all
  three fail, whatever happened to the sessions before it; every registered session is
  sent a destroy request; the session errors are at most one per session; the registry
  is empty afterwards. \<open>stop\<close> has no throwing path: its result is always this triple.
\<close>

theorem C2_stop_retries_collects_and_clears:
  "stop env c tr =
     (case foldl (teardown_step (rpc env)) ([], tr) (sessions c) of (session_errors, tr1) \<Rightarrow>
        (session_errors @ close_errors env c tr1,
         c\<lparr>cliProcess := None, connection := None, socket := None, actualPort := None,
            state := disconnected, sessions := []\<rparr>,
         tr1 @ close_effects c)) \<and>
   list_all (\<lambda>entry. Rpc ''session.destroy'' (sessionId (snd entry)) \<in>
      set (snd (snd (stop env c tr)))) (sessions c) \<and>
   length (fst (foldl (teardown_step (rpc env)) ([], tr) (sessions c))) \<le> length (sessions c) \<and>
   sessions (fst (snd (stop env c tr))) = []"
proof -
  obtain se tr1 where f: "foldl (teardown_step (rpc env)) ([], tr) (sessions c) = (se, tr1)"
    by (cases "foldl (teardown_step (rpc env)) ([], tr) (sessions c)")
  have "list_all (\<lambda>entry. Rpc ''session.destroy'' (sessionId (snd entry)) \<in> set tr1) (sessions c)"
    using teardown_fold_requests [of "rpc env" "([], tr)" "sessions c"] f by simp
  then have "list_all (\<lambda>entry. Rpc ''session.destroy'' (sessionId (snd entry)) \<in>
      set (tr1 @ close_effects c)) (sessions c)"
    by (simp add: list_all_iff)
  moreover have "length se \<le> length (sessions c)"
    using teardown_fold_errors [of "rpc env" "([], tr)" "sessions c"] f by simp
  ultimately show ?thesis
    by (simp add: stop_characterised f)
qed

theorem C2_stop_two_sessions_witness:
  "stop (quiet_outside lost_s1_peer) two_session_client [] =
     ([new_Error ''Failed to destroy session s1 after 3 attempts: lost session.destroy''],
      two_session_client\<lparr>cliProcess := None, connection := None, socket := None,
        actualPort := None, state := disconnected, sessions := []\<rparr>,
      [Rpc ''session.destroy'' ''s1'', Delay 100, Rpc ''session.destroy'' ''s1'', Delay 200,
       Rpc ''session.destroy'' ''s1'', Rpc ''session.destroy'' ''s2'', Dispose, Kill]) \<and>
   stop (quiet_outside once_only_peer) two_session_client [] =
     ([],
      two_session_client\<lparr>cliProcess := None, connection := None, socket := None,
        actualPort := None, state := disconnected, sessions := []\<rparr>,
      [Rpc ''session.destroy'' ''s1'', Rpc ''session.destroy'' ''s2'', Dispose, Kill])"
  using
    C2_stop_retries_collects_and_clears [where env = "quiet_outside lost_s1_peer"
      and c = two_session_client and tr = "[]"]
    C2_stop_retries_collects_and_clears [where env = "quiet_outside once_only_peer"
      and c = two_session_client and tr = "[]"]
  by (simp add: two_session_client_def demo_client_def demo_session_def quiet_outside_def
      lost_s1_peer_def once_only_peer_def teardown_step_def destroy_three_times_def
      close_errors_def close_effects_def Let_def)

section \<open>Properties of startup\<close>

lemmas start_eval =
  start_def startCLIServer_def connectToServer_def connectViaTcp_def
  split_announcement_def whole_announcement_def quiet_outside_def tcp_client_def demo_options_def
  parseInt_def digit_value_def digits_after_def is_digit_def upper_of_def Let_def

lemma matches_here_length: "matches_here p cs \<Longrightarrow> length p \<le> length cs"
  by (induction p cs rule: matches_here.induct) auto

lemma matches_here_append: "matches_here p cs \<Longrightarrow> matches_here p (cs @ tl2)"
  by (induction p cs rule: matches_here.induct) auto

lemma digits_after_append:
  assumes "matches_here ''listening on port '' cs" and "digits_after cs \<noteq> []"
  shows "digits_after (cs @ tl2) \<noteq> []"
proof -
  from matches_here_length [OF assms(1)]
  have "drop (length ''listening on port '') (cs @ tl2) =
        drop (length ''listening on port '') cs @ tl2" by simp
  moreover have "takeWhile P xs \<noteq> [] \<Longrightarrow> takeWhile P (xs @ ys) \<noteq> []" for P and xs ys :: string
    by (cases xs) (auto split: if_splits)
  ultimately show ?thesis using assms(2) unfolding digits_after_def by metis
qed

lemma match_port_append:
  "match_port cs \<noteq> None \<Longrightarrow> match_port (cs @ tl2) \<noteq> None"
proof (induction cs)
  case Nil
  then show ?case by simp
next
  case (Cons ch rest)
  show ?case
  proof (cases "matches_here ''listening on port '' (ch # rest) \<and> digits_after (ch # rest) \<noteq> []")
    case True
    then have "matches_here ''listening on port '' ((ch # rest) @ tl2) \<and>
               digits_after ((ch # rest) @ tl2) \<noteq> []"
      using matches_here_append digits_after_append by blast
    then show ?thesis by (simp del: matches_here.simps)
  next
    case False
    with Cons.prems have "match_port rest \<noteq> None" by (simp del: matches_here.simps)
    from Cons.IH [OF this] show ?thesis by (simp del: matches_here.simps)
  qed
qed

lemma await_ready_times_out:
  "list_all (\<lambda>ev. \<not> settles ev) evs \<Longrightarrow> match_port (buf @ stdout_of evs) = None \<Longrightarrow>
     await_ready evs buf = Inl (new_Error ''Timeout waiting for CLI server to start'')"
proof (induction evs arbitrary: buf)
  case Nil
  show ?case by simp
next
  case (Cons ev evs)
  show ?case
  proof (cases ev)
    case (StdoutData d)
    from Cons.prems(2) have n: "match_port ((buf @ d) @ stdout_of evs) = None"
      by (simp add: StdoutData)
    then have "match_port (buf @ d) = None"
      using match_port_append [of "buf @ d" "stdout_of evs"] by blast
    with Cons.IH [of "buf @ d"] Cons.prems(1) n show ?thesis
      by (simp add: StdoutData)
  next
    case (StderrData d)
    with Cons show ?thesis by simp
  next
    case (ProcError msg)
    with Cons.prems show ?thesis by simp
  next
    case (ProcExit code)
    with Cons.prems show ?thesis by simp
  qed
qed

lemma await_ready_resolves_at_first_match:
  "list_all (\<lambda>ev. \<not> settles ev) pre \<Longrightarrow> match_port (buf @ stdout_of pre) = None \<Longrightarrow>
   match_port (buf @ stdout_of pre @ d) = Some digits \<Longrightarrow>
     await_ready (pre @ StdoutData d # post) buf = Inr (parseInt digits)"
proof (induction pre arbitrary: buf)
  case Nil
  then show ?case by simp
next
  case (Cons ev pre)
  show ?case
  proof (cases ev)
    case (StdoutData d0)
    from Cons.prems(2) have n: "match_port ((buf @ d0) @ stdout_of pre) = None"
      by (simp add: StdoutData)
    then have "match_port (buf @ d0) = None"
      using match_port_append [of "buf @ d0" "stdout_of pre"] by blast
    with Cons.IH [of "buf @ d0"] Cons.prems n show ?thesis
      by (simp add: StdoutData)
  next
    case (StderrData d0)
    with Cons show ?thesis by simp
  next
    case (ProcError msg)
    with Cons.prems show ?thesis by simp
  next
    case (ProcExit code)
    with Cons.prems show ?thesis by simp
  qed
qed

lemma startCLIServer_stdio_is_ready:
  "useStdio (options c) \<Longrightarrow> spawn_throws env = None \<Longrightarrow>
     fst (startCLIServer env c tr) = None"
  by (simp add: startCLIServer_def Let_def)

text \<open>
  C9 fails on the code where the announcement is split between two chunks of standard
  output inside the port number. The child prints "listening on port 54321"; the first
  chunk ends after the digit 5. The buffer then already matches the pattern, so
  readiness is resolved with port 5, and port 5 is what the client dials. When the same
  announcement arrives in one chunk, the port is 54321.
\<close>

theorem C9_split_announcement_truncates_port:
  "start split_announcement tcp_client [] =
     (None,
      tcp_client\<lparr>cliProcess := Some 0, connection := Some 1, socket := Some 1,
        actualPort := Some 5, state := connected\<rparr>,
      [Spawn ''copilot'' [''--server'', ''--log-level'', ''info''], Connect 5]) \<and>
   start whole_announcement tcp_client [] =
     (None,
      tcp_client\<lparr>cliProcess := Some 0, connection := Some 1, socket := Some 1,
        actualPort := Some 54321, state := connected\<rparr>,
      [Spawn ''copilot'' [''--server'', ''--log-level'', ''info''], Connect 54321])"
  by (simp add: start_eval)


section \<open>Properties of query\<close>

lemmas query_eval =
  query_def teardown_def start_def startCLIServer_def connectToServer_def connectViaStdio_def
  createSession_def new_CopilotClient_def registerTools_def on_def sessions_replace_def
  sendRequest_def destroy_def rethrown_def abort_error_def query_world_def quiet_outside_def
  ask_def plain_event_def outside.truncate_def outside.extend_def query_outside.fields_def
  Let_def show_nat.simps digit_char_def new_Error_def

lemma rpc_truncate [simp]: "rpc (outside.truncate env) = rpc env"
  by (simp add: outside.truncate_def)

lemma teardown_when_destroy_accepted:
  assumes "\<And>tr sid. \<exists>v. rpc env tr ''session.destroy'' sid = Inr v"
  shows "completion (teardown env c session pending ys tr) = pending \<and>
         turnFinished (teardown env c session pending ys tr) \<and>
         cliProcess (client (teardown env c session pending ys tr)) = None \<and>
         connection (client (teardown env c session pending ys tr)) = None \<and>
         socket (client (teardown env c session pending ys tr)) = None \<and>
         sessions (client (teardown env c session pending ys tr)) = [] \<and>
         state (client (teardown env c session pending ys tr)) = disconnected \<and>
         ClearTimeout \<in> set (effects (teardown env c session pending ys tr)) \<and>
         (yielded (teardown env c session pending ys tr) = ys \<or>
          (\<exists>errs. errs \<noteq> [] \<and>
             yielded (teardown env c session pending ys tr) = ys @ [cleanup_event env errs]))"
proof (cases session)
  case None
  obtain se tr1 where f: "foldl (teardown_step (rpc env)) ([], tr @ [ClearTimeout]) (sessions c) = (se, tr1)"
    by (cases "foldl (teardown_step (rpc env)) ([], tr @ [ClearTimeout]) (sessions c)")
  from teardown_fold_grows [of "rpc env" "([], tr @ [ClearTimeout])" "sessions c"] f
  have "ClearTimeout \<in> set tr1" by auto
  then show ?thesis
    by (auto simp: teardown_def None stop_characterised f)
next
  case (Some s)
  from assms obtain v where v: "rpc env (tr @ [ClearTimeout]) ''session.destroy'' (sessionId s) = Inr v"
    by blast
  define c1 where "c1 = c\<lparr>sessions := sessions_replace (s\<lparr>eventHandlers := [], toolHandlers := Map.empty\<rparr>) (sessions c)\<rparr>"
  define tr0 where "tr0 = tr @ [ClearTimeout, Rpc ''session.destroy'' (sessionId s)]"
  obtain se tr1 where f: "foldl (teardown_step (rpc env)) ([], tr0) (sessions c1) = (se, tr1)"
    by (cases "foldl (teardown_step (rpc env)) ([], tr0) (sessions c1)")
  from teardown_fold_grows [of "rpc env" "([], tr0)" "sessions c1"] f
  have "ClearTimeout \<in> set tr1" by (auto simp: tr0_def)
  moreover have "teardown env c session pending ys tr =
      (case stop (outside.truncate env) c1 tr0 of
         (cleanupErrors, c2, tr2) \<Rightarrow>
           \<lparr>yielded = (if cleanupErrors \<noteq> [] then ys @ [cleanup_event env cleanupErrors] else ys),
            completion = pending, client = c2, effects = tr2, turnFinished = True\<rparr>)"
    by (simp add: teardown_def Some destroy_def sendRequest_def v c1_def tr0_def)
  ultimately show ?thesis
    by (auto simp: stop_characterised f)
qed

lemma query_stops_client_when_destroy_accepted:
  assumes "\<And>tr sid. \<exists>v. rpc env tr ''session.destroy'' sid = Inr v"
  shows "turnFinished (query env opts) \<and>
         cliProcess (client (query env opts)) = None \<and>
         connection (client (query env opts)) = None \<and>
         socket (client (query env opts)) = None \<and>
         sessions (client (query env opts)) = [] \<and>
         state (client (query env opts)) = disconnected \<and>
         ClearTimeout \<in> set (effects (query env opts))"
proof -
  have "\<exists>c session pending ys tr. query env opts = teardown env c session pending ys tr"
    by (simp add: query_def Let_def split: prod.splits option.splits sum.splits loop_exit.splits) blast
  then obtain c session pending ys tr where
    "query env opts = teardown env c session pending ys tr" by blast
  with teardown_when_destroy_accepted [OF assms, of c session pending ys tr]
  show ?thesis by simp
qed

lemma rethrown_timeout:
  "rethrown timeout True abort_error =
     new_Error (''Query timed out after '' @ show_nat timeout @ ''ms'')"
  by (simp add: rethrown_def abort_error_def)

lemma rethrown_plain_error: "rethrown timeout aborted (new_Error msg) = new_Error msg"
  by (simp add: rethrown_def new_Error_def)


text \<open>
  C1 fails on the code where the "session.destroy" request sent from the \<open>finally\<close> block
  is rejected: \<open>await session?.destroy()\<close> is not guarded, so the rejection leaves the
  block before \<open>client.stop()\<close>. Here the turn runs to session.idle; the generator then
  throws the rejection, and the client is left connected, holding its process, its
  connection and the session. No Dispose or Kill is among the effects. With a peer that
  accepts the request, the same run ends with the client stopped.
\<close>

theorem C1_failed_destroy_leaves_client_running:
  "completion (query (query_world failing_destroy_peer finished_turn) ask) =
     Failed (new_Error ''Internal error'') \<and>
   map ev_type (yielded (query (query_world failing_destroy_peer finished_turn) ask)) =
     [''assistant.message'', ''session.idle''] \<and>
   effects (query (query_world failing_destroy_peer finished_turn) ask) =
     [SetTimeout 60000,
      Spawn ''copilot'' [''--server'', ''--log-level'', ''error'', ''--stdio''],
      Rpc ''session.create'' [], Rpc ''session.send'' ''s1'', ClearTimeout,
      Rpc ''session.destroy'' ''s1''] \<and>
   cliProcess (client (query (query_world failing_destroy_peer finished_turn) ask)) = Some 1 \<and>
   connection (client (query (query_world failing_destroy_peer finished_turn) ask)) = Some 2 \<and>
   state (client (query (query_world failing_destroy_peer finished_turn) ask)) = connected \<and>
   map fst (sessions (client (query (query_world failing_destroy_peer finished_turn) ask))) =
     [''s1''] \<and>
   completion (query (query_world accepting_peer finished_turn) ask) = Completed \<and>
   cliProcess (client (query (query_world accepting_peer finished_turn) ask)) = None \<and>
   effects (query (query_world accepting_peer finished_turn) ask) =
     [SetTimeout 60000,
      Spawn ''copilot'' [''--server'', ''--log-level'', ''error'', ''--stdio''],
      Rpc ''session.create'' [], Rpc ''session.send'' ''s1'', ClearTimeout,
      Rpc ''session.destroy'' ''s1'', Rpc ''session.destroy'' ''s1'', Dispose, Kill]"
  by (simp add: query_eval finished_turn_def failing_destroy_peer_def accepting_peer_def
      stop_def destroy_retry.simps)

text \<open>
  C8 fails on the code in the same way: the timer fires before any event, the \<open>catch\<close>
  clause throws "Query timed out after 60000ms", and the rejected "session.destroy" of
  the \<open>finally\<close> block replaces that error, so the stream fails with the rejection. With a
  peer that accepts the request, the stream fails with the timeout error.
\<close>

theorem C8_failed_destroy_hides_timeout:
  "completion (query (query_world failing_destroy_peer []) ask) =
     Failed (new_Error ''Internal error'') \<and>
   completion (query (query_world accepting_peer []) ask) =
     Failed (new_Error ''Query timed out after 60000ms'')"
  by (simp add: query_eval failing_destroy_peer_def accepting_peer_def stop_def
      destroy_retry.simps)


end
